theory Spec2Isabelle
  imports Main
begin

section \<open>JSON values and the Python operations the handlers apply to them\<close>

text \<open>
  A request body is the value \<^verbatim>\<open>request.get_json()\<close> returns: \<open>JNull\<close> is Python's
  \<^verbatim>\<open>None\<close>, \<open>JObj\<close> a \<^verbatim>\<open>dict\<close> (one pair per key), \<open>JList\<close> a \<^verbatim>\<open>list\<close>.
  Numbers are the integers; JSON numbers with a fraction are outside this model.
\<close>

datatype json =
    JNull
  | JBool bool
  | JInt int
  | JStr string
  | JList "json list"
  | JObj "(string \<times> json) list"

text \<open>Python truth value testing, as \<^verbatim>\<open>if x:\<close> and \<^verbatim>\<open>not x\<close> apply it.\<close>

fun truthy :: "json \<Rightarrow> bool" where
  "truthy JNull = False"
| "truthy (JBool b) = b"
| "truthy (JInt n) = (n \<noteq> 0)"
| "truthy (JStr s) = (s \<noteq> [])"
| "truthy (JList xs) = (xs \<noteq> [])"
| "truthy (JObj kvs) = (kvs \<noteq> [])"

text \<open>\<^verbatim>\<open>d.get(k)\<close> on a dict: the value, or \<^verbatim>\<open>None\<close> for a missing key.\<close>

definition dict_get :: "(string \<times> json) list \<Rightarrow> string \<Rightarrow> json" where
  "dict_get d k = (case map_of d k of None \<Rightarrow> JNull | Some v \<Rightarrow> v)"

text \<open>
  \<^verbatim>\<open>v[k]\<close> with a string key: the value for a dict that has the key; \<open>None\<close> stands
  for the exception raised otherwise (\<^verbatim>\<open>KeyError\<close> for a dict without the key,
  \<^verbatim>\<open>TypeError\<close> for every other value).
\<close>

fun subscript :: "json \<Rightarrow> string \<Rightarrow> json option" where
  "subscript (JObj d) k = map_of d k"
| "subscript _ k = None"

text \<open>\<^verbatim>\<open>i == v\<close> for an integer \<open>i\<close>: Python's \<^verbatim>\<open>True\<close> and \<^verbatim>\<open>False\<close> equal 1 and 0.\<close>

fun int_eq :: "int \<Rightarrow> json \<Rightarrow> bool" where
  "int_eq i (JInt n) = (i = n)"
| "int_eq i (JBool b) = (i = (if b then 1 else 0))"
| "int_eq i _ = False"

text \<open>
  \<^verbatim>\<open>i in v\<close> for an integer \<open>i\<close>: membership in a list, key membership in a dict
  (whose keys are strings, so never equal to \<open>i\<close>); \<open>None\<close> stands for the
  \<^verbatim>\<open>TypeError\<close> every other value raises.
\<close>

fun int_in :: "int \<Rightarrow> json \<Rightarrow> bool option" where
  "int_in i (JList xs) = Some (\<exists>x \<in> set xs. int_eq i x)"
| "int_in i (JObj d) = Some False"
| "int_in i _ = None"

text \<open>
  \<^verbatim>\<open>xs[start:stop]\<close> on a list: a negative bound counts from the end, and both
  bounds are clamped to the list.
\<close>

definition slice_index :: "int \<Rightarrow> int \<Rightarrow> int" where
  "slice_index n i = (if i < 0 then max (n + i) 0 else min i n)"

definition py_slice :: "'a list \<Rightarrow> int \<Rightarrow> int \<Rightarrow> 'a list" where
  "py_slice xs start stop =
     (let n = int (length xs);
          lo = slice_index n start;
          hi = slice_index n stop
      in take (nat (hi - lo)) (drop (nat lo) xs))"

section \<open>Failures and responses\<close>

text \<open>
  \<^verbatim>\<open>abort(404)\<close>, \<^verbatim>\<open>abort(409)\<close> and \<^verbatim>\<open>abort(422)\<close> end a handler; an exception
  no handler catches ends it as an internal error. The four registered error
  handlers turn each into its envelope.
\<close>

datatype failure = NotFound | Conflict | Unprocessable | InternalError

record response =
  resp_status :: int
  resp_json :: "(string \<times> json) list"

fun error_code :: "failure \<Rightarrow> int" where
  "error_code NotFound = 404"
| "error_code Conflict = 409"
| "error_code Unprocessable = 422"
| "error_code InternalError = 500"

fun error_message :: "failure \<Rightarrow> string" where
  "error_message NotFound = ''Not found''"
| "error_message Conflict = ''Question exists''"
| "error_message Unprocessable = ''Check input values''"
| "error_message InternalError = ''Oops! Internal server error.''"

definition errorhandler :: "failure \<Rightarrow> response" where
  "errorhandler e =
     \<lparr>resp_status = error_code e,
      resp_json = [(''success'', JBool False),
                   (''error'', JInt (error_code e)),
                   (''message'', JStr (error_message e))]\<rparr>"

text \<open>What the client receives for a handler's outcome.\<close>

definition http :: "failure + response \<Rightarrow> response" where
  "http r = (case r of Inl e \<Rightarrow> errorhandler e | Inr ok \<Rightarrow> ok)"

section \<open>The store\<close>

text \<open>
  Modelled from the spec: \<^verbatim>\<open>models.py\<close> (the Question and Category classes with
  their \<^verbatim>\<open>format\<close>, \<^verbatim>\<open>insert\<close> and \<^verbatim>\<open>delete\<close> methods, and the database set-up) is
  not part of the sources. The records carry the fields of the spec's data model.
\<close>

record Question =
  q_id :: int
  q_question :: string
  q_answer :: string
  q_category :: int
  q_difficulty :: int

record Category =
  c_id :: int
  c_type :: string

text \<open>
  Modelled from the spec: the store holds both tables in the order it returns
  them, and the counter from which it assigns the id of the next question.
\<close>

record store =
  question_rows :: "Question list"
  category_rows :: "Category list"
  next_question_id :: int

text \<open>
  Modelled from the spec: a formatted record is the record reduced to its
  externally exposed fields.
\<close>

definition Question_format :: "Question \<Rightarrow> json" where
  "Question_format q =
     JObj [(''id'', JInt (q_id q)),
           (''question'', JStr (q_question q)),
           (''answer'', JStr (q_answer q)),
           (''category'', JInt (q_category q)),
           (''difficulty'', JInt (q_difficulty q))]"

definition Category_format :: "Category \<Rightarrow> json" where
  "Category_format c = JObj [(''id'', JInt (c_id c)), (''type'', JStr (c_type c))]"

text \<open>
  What a query expression evaluates to in a handler. \<^verbatim>\<open>.all()\<close> gives a Python
  list (\<open>Rows\<close>). \<^verbatim>\<open>filter_by(...)\<close> and \<^verbatim>\<open>filter(...)\<close> give a query object
  (\<open>Query\<close>) that reads its rows only when it is iterated or sliced; \<open>None\<close> is
  a query the database rejects when it runs.
\<close>

datatype 'a selection = Rows "'a list" | Query "'a list option"

text \<open>\<^verbatim>\<open>not selection\<close>: a list is falsy when empty; a query object is an
  ordinary object and always truthy.\<close>

fun selection_truthy :: "'a selection \<Rightarrow> bool" where
  "selection_truthy (Rows xs) = (xs \<noteq> [])"
| "selection_truthy (Query q) = True"

text \<open>Iterating a selection: its rows, or the database's error.\<close>

fun iterate :: "'a selection \<Rightarrow> failure + 'a list" where
  "iterate (Rows xs) = Inr xs"
| "iterate (Query None) = Inl InternalError"
| "iterate (Query (Some xs)) = Inr xs"

text \<open>\<^verbatim>\<open>selection[:5]\<close>: the first five of a list, or of a query's rows
  (a \<^verbatim>\<open>LIMIT 5\<close>).\<close>

fun first_five :: "'a selection \<Rightarrow> failure + 'a list" where
  "first_five (Rows xs) = Inr (take 5 xs)"
| "first_five (Query None) = Inl InternalError"
| "first_five (Query (Some xs)) = Inr (take 5 xs)"

text \<open>
  How the database treats a JSON value that is compared with, or stored in, a
  typed column is not decided by the repository: an integer binds to an integer
  column and a string to a text column as themselves; for every other value
  the behaviour is a parameter (\<open>None\<close>: the database raises). So is the
  case-insensitive pattern match of the search branch, given the search term
  and a question's text.
\<close>

record database =
  int_param :: "json \<Rightarrow> int option"
  text_param :: "json \<Rightarrow> string option"
  ilike :: "json \<Rightarrow> string \<Rightarrow> bool"

fun bind_int :: "database \<Rightarrow> json \<Rightarrow> int option" where
  "bind_int db (JInt n) = Some n"
| "bind_int db v = int_param db v"

fun bind_text :: "database \<Rightarrow> json \<Rightarrow> string option" where
  "bind_text db (JStr s) = Some s"
| "bind_text db v = text_param db v"

text \<open>Modelled from the spec: the store's query primitives.\<close>

definition Question_query_all :: "store \<Rightarrow> Question list" where
  "Question_query_all st = question_rows st"

definition Category_query_all :: "store \<Rightarrow> Category list" where
  "Category_query_all st = category_rows st"

definition Question_query_get :: "store \<Rightarrow> int \<Rightarrow> Question option" where
  "Question_query_get st i = find (\<lambda>q. q_id q = i) (question_rows st)"

definition Category_query_get :: "store \<Rightarrow> int \<Rightarrow> Category option" where
  "Category_query_get st i = find (\<lambda>c. c_id c = i) (category_rows st)"

definition filter_by_category :: "store \<Rightarrow> int \<Rightarrow> Question list" where
  "filter_by_category st c = filter (\<lambda>q. q_category q = c) (question_rows st)"

definition filter_by_question :: "store \<Rightarrow> string \<Rightarrow> Question list" where
  "filter_by_question st t = filter (\<lambda>q. q_question q = t) (question_rows st)"

definition search_questions :: "database \<Rightarrow> store \<Rightarrow> json \<Rightarrow> Question list" where
  "search_questions db st term =
     filter (\<lambda>q. ilike db term (q_question q)) (sort_key q_id (question_rows st))"

text \<open>Modelled from the spec: \<^verbatim>\<open>question.delete()\<close> removes the row with the
  question's id.\<close>

definition Question_delete :: "store \<Rightarrow> Question \<Rightarrow> store" where
  "Question_delete st q =
     st\<lparr>question_rows := filter (\<lambda>r. q_id r \<noteq> q_id q) (question_rows st)\<rparr>"

text \<open>Modelled from the spec: \<^verbatim>\<open>question.insert()\<close> stores a new row under the
  next id the store assigns.\<close>

definition Question_insert :: "store \<Rightarrow> string \<Rightarrow> string \<Rightarrow> int \<Rightarrow> int \<Rightarrow> Question \<times> store" where
  "Question_insert st text answer difficulty category =
     (let q = \<lparr>q_id = next_question_id st, q_question = text, q_answer = answer,
               q_category = category, q_difficulty = difficulty\<rparr>
      in (q, st\<lparr>question_rows := question_rows st @ [q],
                next_question_id := next_question_id st + 1\<rparr>))"

section \<open>GET /questions\<close>

definition QUESTIONS_PER_PAGE :: int where
  "QUESTIONS_PER_PAGE = 10"

text \<open>\<^verbatim>\<open>request.args.get('page', 1, type=int)\<close>: \<open>page_arg\<close> is the \<^verbatim>\<open>page\<close>
  query argument read as an integer, \<open>None\<close> when it is absent or not an
  integer, and then the default 1 applies.\<close>

definition page_of :: "int option \<Rightarrow> int" where
  "page_of page_arg = (case page_arg of None \<Rightarrow> 1 | Some p \<Rightarrow> p)"

definition get_questions :: "store \<Rightarrow> int option \<Rightarrow> failure + response" where
  "get_questions st page_arg =
     (let page = page_of page_arg;
          start = (page - 1) * QUESTIONS_PER_PAGE;
          stop = start + QUESTIONS_PER_PAGE;
          selection = Question_query_all st;
          categories_selection = Category_query_all st
      in if selection = [] then Inl NotFound
         else
           let questions = map Question_format (py_slice selection start stop);
               categories = map Category_format categories_selection
           in if questions = [] then Inl NotFound
              else Inr \<lparr>resp_status = 200,
                        resp_json = [(''success'', JBool True),
                                     (''questions'', JList questions),
                                     (''count'', JInt (int (length selection))),
                                     (''categories'', JList categories),
                                     (''current_category'', JNull)]\<rparr>)"

section \<open>GET /categories/<int:category_id>/questions\<close>

text \<open>Reading \<^verbatim>\<open>category.id\<close> when the lookup gave \<^verbatim>\<open>None\<close> raises an
  \<^verbatim>\<open>AttributeError\<close> that nothing catches.\<close>

definition get_question_by_category_id :: "store \<Rightarrow> int \<Rightarrow> failure + response" where
  "get_question_by_category_id st category_id =
     (case Category_query_get st category_id of
        None \<Rightarrow> Inl InternalError
      | Some category \<Rightarrow>
          let selection = Query (Some (filter_by_category st (c_id category)))
          in if \<not> selection_truthy selection then Inl NotFound
             else (case iterate selection of
                     Inl e \<Rightarrow> Inl e
                   | Inr rows \<Rightarrow>
                       (let questions = map Question_format rows
                        in Inr \<lparr>resp_status = 200,
                                resp_json = [(''success'', JBool True),
                                             (''count'', JInt (int (length questions))),
                                             (''questions'', JList questions),
                                             (''current_category'', JStr (c_type category))]\<rparr>)))"

section \<open>DELETE /questions/<int:id>\<close>

text \<open>The handler's outcome together with the store it leaves behind.\<close>

definition delete_question :: "store \<Rightarrow> int \<Rightarrow> (failure + response) \<times> store" where
  "delete_question st i =
     (case Question_query_get st i of
        None \<Rightarrow> (Inl NotFound, st)
      | Some question \<Rightarrow>
          let st' = Question_delete st question;
              selection = Question_query_all st'
          in if selection = [] then (Inl NotFound, st')
             else
               let questions = map Question_format selection
               in if questions = [] then (Inl NotFound, st')
                  else (Inr \<lparr>resp_status = 200,
                             resp_json = [(''success'', JBool True),
                                          (''questions'', JList questions),
                                          (''count'', JInt (int (length questions)))]\<rparr>,
                        st'))"

section \<open>POST /questions\<close>

text \<open>
  The end of the handler, shared by its three branches: the two emptiness
  checks, and the response for the status code the branch has set. \<open>created\<close>
  is the id of the question the create branch inserted.
\<close>

definition post_questions_respond :: "int \<Rightarrow> int \<Rightarrow> Question selection \<Rightarrow> failure + response" where
  "post_questions_respond status_code created selection =
     (if \<not> selection_truthy selection then Inl NotFound
      else (case iterate selection of
              Inl e \<Rightarrow> Inl e
            | Inr rows \<Rightarrow>
                (let questions = map Question_format rows
                 in if questions = [] then Inl NotFound
                    else if status_code = 201
                      then Inr \<lparr>resp_status = status_code,
                                resp_json = [(''success'', JBool True),
                                             (''questions'', JList questions),
                                             (''created'', JInt created),
                                             (''count'', JInt (int (length questions)))]\<rparr>
                      else Inr \<lparr>resp_status = status_code,
                                resp_json = [(''success'', JBool True),
                                             (''questions'', JList questions),
                                             (''count'', JInt (int (length questions)))]\<rparr>)))"

text \<open>
  Storing into an integer column: the column holds the 32-bit signed integers,
  and the database raises for a value outside them. (A comparison with a
  value outside them does not raise; it matches no row.)
\<close>

definition fits_integer_column :: "int \<Rightarrow> bool" where
  "fits_integer_column n = (- 2147483648 \<le> n \<and> n \<le> 2147483647)"

definition store_int :: "database \<Rightarrow> json \<Rightarrow> int option" where
  "store_int db v =
     (case bind_int db v of
        None \<Rightarrow> None
      | Some n \<Rightarrow> if fits_integer_column n then Some n else None)"

text \<open>
  The create branch. Both \<^verbatim>\<open>try\<close> blocks catch every exception and abort with
  422; the duplicate lookup between them is not guarded, so a value the
  database rejects there is an internal error.
\<close>

definition create_question :: "database \<Rightarrow> store \<Rightarrow> json \<Rightarrow> (failure + response) \<times> store" where
  "create_question db st new_question =
     (case (subscript new_question ''question'', subscript new_question ''answer'',
            subscript new_question ''difficulty'', subscript new_question ''category'') of
        (Some question_text, Some answer_text, Some difficulty, Some category) \<Rightarrow>
          (case bind_text db question_text of
             None \<Rightarrow> (Inl InternalError, st)
           | Some text \<Rightarrow>
               (let existing_question = filter_by_question st text
                in if existing_question \<noteq> [] then (Inl Conflict, st)
                   else (case (bind_text db answer_text, store_int db difficulty, store_int db category) of
                           (Some a, Some d, Some c) \<Rightarrow>
                             (let (question, st') = Question_insert st text a d c;
                                  selection = Rows (Question_query_all st')
                              in (post_questions_respond 201 (q_id question) selection, st'))
                         | _ \<Rightarrow> (Inl Unprocessable, st))))
      | _ \<Rightarrow> (Inl Unprocessable, st))"

text \<open>A body that is not a dict has no \<^verbatim>\<open>get\<close>: the \<^verbatim>\<open>AttributeError\<close> is not
  caught.\<close>

definition post_questions :: "database \<Rightarrow> store \<Rightarrow> json \<Rightarrow> (failure + response) \<times> store" where
  "post_questions db st body =
     (case body of
        JObj b \<Rightarrow>
          (let category_query = dict_get b ''category'';
               search_query = dict_get b ''search'';
               new_question = dict_get b ''question''
           in if truthy category_query then
                (let selection = Query (map_option (filter_by_category st) (bind_int db category_query))
                 in if \<not> selection_truthy selection then (Inl NotFound, st)
                    else (post_questions_respond 200 0 selection, st))
              else if truthy search_query then
                (let selection = Query (Some (search_questions db st search_query))
                 in if \<not> selection_truthy selection then (Inl NotFound, st)
                    else (post_questions_respond 200 0 selection, st))
              else if truthy new_question then create_question db st new_question
              else (Inl Unprocessable, st))
      | _ \<Rightarrow> (Inl InternalError, st))"

section \<open>POST /quizzes\<close>

text \<open>
  The questions a quiz draws from and the category it reports, for the
  \<^verbatim>\<open>category_id\<close> of the request. A category lookup that finds nothing gives
  \<^verbatim>\<open>None\<close>, and calling \<^verbatim>\<open>format\<close> on it raises an \<^verbatim>\<open>AttributeError\<close> that
  nothing catches.
\<close>

definition quiz_selection :: "database \<Rightarrow> store \<Rightarrow> json \<Rightarrow> failure + (Question selection \<times> json)" where
  "quiz_selection db st category_id =
     (if \<not> truthy category_id \<or> category_id = JStr ''0''
      then Inr (Rows (Question_query_all st), JStr '''')
      else (case bind_int db category_id of
              None \<Rightarrow> Inl InternalError
            | Some k \<Rightarrow>
                (case Category_query_get st k of
                   None \<Rightarrow> Inl InternalError
                 | Some category_query \<Rightarrow>
                     Inr (Query (Some (filter_by_category st k)), Category_format category_query))))"

text \<open>
  The list comprehension over the window: a question is kept when its id is
  not in \<^verbatim>\<open>previous_questions\<close>. The membership test is evaluated once per
  question of the window, so a value that does not support it raises only when
  the window is not empty.
\<close>

fun not_previous :: "Question list \<Rightarrow> json \<Rightarrow> failure + json list" where
  "not_previous [] previous_questions = Inr []"
| "not_previous (question # rest) previous_questions =
     (case int_in (q_id question) previous_questions of
        None \<Rightarrow> Inl InternalError
      | Some seen \<Rightarrow>
          (case not_previous rest previous_questions of
             Inl e \<Rightarrow> Inl e
           | Inr questions \<Rightarrow>
               Inr (if seen then questions else Question_format question # questions)))"

text \<open>\<^verbatim>\<open>randint(0, n - 1)\<close> for \<open>0 < n\<close>, as a function of the random
  source's next draw \<open>r\<close>: every index below \<open>n\<close>, and nothing else.\<close>

definition randint_below :: "nat \<Rightarrow> nat \<Rightarrow> nat" where
  "randint_below r n = r mod n"

definition get_quizzes :: "database \<Rightarrow> store \<Rightarrow> nat \<Rightarrow> json \<Rightarrow> failure + response" where
  "get_quizzes db st r body =
     (case body of
        JObj b \<Rightarrow>
          (let quiz_data = dict_get b ''quiz''
           in if \<not> truthy quiz_data then Inl Unprocessable
              else (case subscript quiz_data ''category_id'' of
                      None \<Rightarrow> Inl Unprocessable
                    | Some category_id \<Rightarrow>
                        (case quiz_selection db st category_id of
                           Inl e \<Rightarrow> Inl e
                         | Inr (selection, category) \<Rightarrow>
                             (case subscript quiz_data ''previous_questions'' of
                                None \<Rightarrow> Inl InternalError
                              | Some previous_questions \<Rightarrow>
                                  (case first_five selection of
                                     Inl e \<Rightarrow> Inl e
                                   | Inr window \<Rightarrow>
                                       (case not_previous window previous_questions of
                                          Inl e \<Rightarrow> Inl e
                                        | Inr questions \<Rightarrow>
                                            (let question =
                                                   (if questions \<noteq> []
                                                    then questions ! randint_below r (length questions)
                                                    else JNull)
                                             in Inr \<lparr>resp_status = 200,
                                                     resp_json = [(''success'', JBool True),
                                                                  (''question'', question),
                                                                  (''previous_questions'', previous_questions),
                                                                  (''current_category'', category)]\<rparr>)))))))
      | _ \<Rightarrow> Inl InternalError)"

section \<open>Notions the properties are stated with\<close>

text \<open>
  The page window as the specification words it: the items of the collection
  at the positions \<open>(page - 1) * 10 \<le> i < (page - 1) * 10 + 10\<close>.
\<close>

definition page_window :: "'a list \<Rightarrow> int \<Rightarrow> 'a list" where
  "page_window xs page =
     map (\<lambda>i. xs ! nat i)
       (filter (\<lambda>i. 0 \<le> i \<and> i < int (length xs)) [(page - 1) * 10 .. (page - 1) * 10 + 9])"

text \<open>A question is fresh when its id is not \<^verbatim>\<open>in\<close> the list of previous
  questions.\<close>

definition fresh :: "json list \<Rightarrow> Question \<Rightarrow> bool" where
  "fresh previous q = (\<not> (\<exists>x \<in> set previous. int_eq (q_id q) x))"

subsection \<open>A sample store\<close>

text \<open>Eleven questions, all of category 1, and two categories, the second
  without questions.\<close>

definition sample_question :: "int \<Rightarrow> string \<Rightarrow> Question" where
  "sample_question i t =
     \<lparr>q_id = i, q_question = t, q_answer = ''yes'', q_category = 1, q_difficulty = 2\<rparr>"

definition sample_store :: store where
  "sample_store =
     \<lparr>question_rows =
        [sample_question 1 ''q1'', sample_question 2 ''q2'', sample_question 3 ''q3'',
         sample_question 4 ''q4'', sample_question 5 ''q5'', sample_question 6 ''q6'',
         sample_question 7 ''q7'', sample_question 8 ''q8'', sample_question 9 ''q9'',
         sample_question 10 ''q10'', sample_question 11 ''q11''],
      category_rows = [\<lparr>c_id = 1, c_type = ''Science''\<rparr>, \<lparr>c_id = 2, c_type = ''Art''\<rparr>],
      next_question_id = 12\<rparr>"

text \<open>
  The pattern match of the sample database, for a search term that is a
  string: the pattern \<^verbatim>\<open>%term%\<close> against the text, both with the letters A to Z
  in lower case; \<^verbatim>\<open>%\<close> stands for any run of characters, \<^verbatim>\<open>_\<close> for any one
  character, and a backslash takes the next character literally.
\<close>

definition lower_char :: "char \<Rightarrow> char" where
  "lower_char c =
     (case map_of (zip ''ABCDEFGHIJKLMNOPQRSTUVWXYZ'' ''abcdefghijklmnopqrstuvwxyz'') c of
        None \<Rightarrow> c
      | Some l \<Rightarrow> l)"

fun like_match :: "string \<Rightarrow> string \<Rightarrow> bool" where
  "like_match [] t = (t = [])"
| "like_match (p # ps) [] = (p = CHR ''%'' \<and> like_match ps [])"
| "like_match (p # ps) (c # t) =
     (if p = CHR ''%'' then like_match ps (c # t) \<or> like_match (p # ps) t
      else if p = CHR ''_'' then like_match ps t
      else if p = CHR 0x5C then
        (case ps of [] \<Rightarrow> False | e # ps' \<Rightarrow> e = c \<and> like_match ps' t)
      else p = c \<and> like_match ps t)"

definition sample_ilike :: "json \<Rightarrow> string \<Rightarrow> bool" where
  "sample_ilike term text =
     (case term of
        JStr s \<Rightarrow> like_match (map lower_char (''%'' @ s @ ''%'')) (map lower_char text)
      | _ \<Rightarrow> False)"

text \<open>The sample database rejects every value that is not of its column's
  type; its search terms are strings.\<close>

definition sample_db :: database where
  "sample_db =
     \<lparr>int_param = (\<lambda>v. None), text_param = (\<lambda>v. None), ilike = sample_ilike\<rparr>"

text \<open>
  A second store, with questions of the categories 1, 0 and 2 in this order,
  and a database that takes the string \<open>"0"\<close> for the integer 0 where an
  integer is expected, as a database does that reads a quoted literal by the
  type of the column it is compared with.
\<close>

definition mixed_store :: store where
  "mixed_store =
     \<lparr>question_rows =
        [\<lparr>q_id = 1, q_question = ''first'', q_answer = ''a'', q_category = 1, q_difficulty = 1\<rparr>,
         \<lparr>q_id = 2, q_question = ''second'', q_answer = ''b'', q_category = 0, q_difficulty = 1\<rparr>,
         \<lparr>q_id = 3, q_question = ''third'', q_answer = ''c'', q_category = 2, q_difficulty = 1\<rparr>],
      category_rows = [\<lparr>c_id = 1, c_type = ''Science''\<rparr>, \<lparr>c_id = 2, c_type = ''Art''\<rparr>],
      next_question_id = 4\<rparr>"

definition coercing_db :: database where
  "coercing_db =
     \<lparr>int_param = (\<lambda>v. if v = JStr ''0'' then Some 0 else None),
      text_param = (\<lambda>v. None), ilike = sample_ilike\<rparr>"

section \<open>Pagination\<close>

lemma page_window_empty_iff:
  "page_window xs page = [] \<longleftrightarrow> page \<le> 0 \<or> int (length xs) \<le> (page - 1) * 10"
proof -
  have "page_window xs page = [] \<longleftrightarrow>
        (\<forall>i \<in> {(page - 1) * 10 .. (page - 1) * 10 + 9}. \<not> (0 \<le> i \<and> i < int (length xs)))"
    by (simp add: page_window_def filter_empty_conv)
  also have "\<dots> \<longleftrightarrow> page \<le> 0 \<or> int (length xs) \<le> (page - 1) * 10"
  proof
    assume h: "\<forall>i \<in> {(page - 1) * 10 .. (page - 1) * 10 + 9}. \<not> (0 \<le> i \<and> i < int (length xs))"
    show "page \<le> 0 \<or> int (length xs) \<le> (page - 1) * 10"
    proof (rule ccontr)
      assume "\<not> ?thesis"
      then have "0 \<le> (page - 1) * 10" "(page - 1) * 10 < int (length xs)" by auto
      with h show False by force
    qed
  next
    assume "page \<le> 0 \<or> int (length xs) \<le> (page - 1) * 10"
    then show "\<forall>i \<in> {(page - 1) * 10 .. (page - 1) * 10 + 9}. \<not> (0 \<le> i \<and> i < int (length xs))"
      by auto
  qed
  finally show ?thesis .
qed

lemma py_slice_empty_iff:
  "py_slice xs start stop = [] \<longleftrightarrow>
     slice_index (int (length xs)) stop \<le> slice_index (int (length xs)) start"
  by (auto simp: py_slice_def Let_def slice_index_def max_def min_def)

text \<open>The first emptiness check of the handler is subsumed by the second: the
  slice of an empty list is empty.\<close>

lemma get_questions_cases:
  "get_questions st pg =
     (if py_slice (question_rows st) ((page_of pg - 1) * 10) ((page_of pg - 1) * 10 + 10) = []
      then Inl NotFound
      else Inr \<lparr>resp_status = 200,
                resp_json = [(''success'', JBool True),
                  (''questions'', JList (map Question_format
                      (py_slice (question_rows st) ((page_of pg - 1) * 10) ((page_of pg - 1) * 10 + 10)))),
                  (''count'', JInt (int (length (question_rows st)))),
                  (''categories'', JList (map Category_format (category_rows st))),
                  (''current_category'', JNull)]\<rparr>)"
  by (auto simp: get_questions_def Let_def QUESTIONS_PER_PAGE_def
        Question_query_all_def Category_query_all_def py_slice_def)

text \<open>
  C2. Whenever GET /questions succeeds, the \<open>count\<close> field of the response is
  the number of questions the store holds, whatever the page.
\<close>

theorem get_questions_count:
  "get_questions st pg = Inr r \<Longrightarrow>
     map_of (resp_json r) ''count'' = Some (JInt (int (length (Question_query_all st))))"
  by (auto simp: get_questions_cases Question_query_all_def split: if_splits)

text \<open>
  C4, as amended. For a page number that is not negative, GET /questions
  responds not-found exactly when the store holds no question or the page
  window holds no item. For a negative page number both bounds of the slice
  count from the end of the collection, and the response is not-found exactly
  when the collection has at most \<open>10 * (- page)\<close> questions. Every other
  request succeeds with status 200, and every not-found outcome is the one
  failure \<open>NotFound\<close>, so the envelope is the same.
\<close>

theorem get_questions_not_found:
  "(get_questions st pg = Inl NotFound \<longleftrightarrow>
      (if 0 \<le> page_of pg
       then Question_query_all st = [] \<or> page_window (Question_query_all st) (page_of pg) = []
       else int (length (Question_query_all st)) \<le> 10 * (- page_of pg)))
   \<and> (get_questions st pg \<noteq> Inl NotFound \<longrightarrow>
        (\<exists>r. get_questions st pg = Inr r \<and> resp_status r = 200))"
  by (auto simp: get_questions_cases Question_query_all_def page_window_empty_iff
        py_slice_empty_iff slice_index_def max_def min_def split: if_splits)

subsection \<open>The sample store, page by page\<close>

lemma sample_rows_length: "length (question_rows sample_store) = 11"
  by (simp add: sample_store_def)

lemma sample_page_2:
  "get_questions sample_store (Some 2) =
     Inr \<lparr>resp_status = 200,
          resp_json = [(''success'', JBool True),
            (''questions'', JList [Question_format (sample_question 11 ''q11'')]),
            (''count'', JInt 11),
            (''categories'', JList (map Category_format (category_rows sample_store))),
            (''current_category'', JNull)]\<rparr>"
  by (simp add: get_questions_cases page_of_def py_slice_def slice_index_def sample_store_def)

text \<open>Page \<open>-1\<close>: the slice \<^verbatim>\<open>selection[-20:-10]\<close> of eleven questions is the
  first question.\<close>

lemma sample_page_minus_1:
  "get_questions sample_store (Some (- 1)) =
     Inr \<lparr>resp_status = 200,
          resp_json = [(''success'', JBool True),
            (''questions'', JList [Question_format (sample_question 1 ''q1'')]),
            (''count'', JInt 11),
            (''categories'', JList (map Category_format (category_rows sample_store))),
            (''current_category'', JNull)]\<rparr>"
  by (simp add: get_questions_cases page_of_def py_slice_def slice_index_def sample_store_def)

text \<open>Page 2 of the sample store: one question in the page, a count of 11.\<close>

theorem get_questions_count_witness:
  "map_of (resp_json (http (get_questions sample_store (Some 2)))) ''count'' = Some (JInt 11)
   \<and> map_of (resp_json (http (get_questions sample_store (Some 2)))) ''questions''
       = Some (JList [Question_format (sample_question 11 ''q11'')])"
  using get_questions_count [OF sample_page_2]
  by (simp add: sample_page_2 http_def Question_query_all_def sample_rows_length)

text \<open>
  C4 as stated fails at page \<open>-1\<close> of the sample store: the store is not
  empty, no position of the window \<open>[-20, -10)\<close> holds an item, and the
  response is not not-found.
\<close>

theorem get_questions_window_counterexample:
  "\<not> (get_questions sample_store (Some (- 1)) = Inl NotFound \<longleftrightarrow>
        Question_query_all sample_store = []
      \<or> page_window (Question_query_all sample_store) (page_of (Some (- 1))) = [])"
  by (simp add: get_questions_cases page_of_def py_slice_def slice_index_def
        page_window_empty_iff Question_query_all_def sample_store_def)

text \<open>Pages 3 and \<open>-2\<close> of the sample store are not found, page \<open>-1\<close> is.\<close>

theorem get_questions_not_found_witness:
  "get_questions sample_store (Some 3) = Inl NotFound
   \<and> get_questions sample_store (Some (- 2)) = Inl NotFound
   \<and> get_questions sample_store (Some (- 1)) \<noteq> Inl NotFound"
  using get_questions_not_found [of sample_store "Some 3"]
    get_questions_not_found [of sample_store "Some (- 2)"]
    get_questions_not_found [of sample_store "Some (- 1)"]
  by (simp add: page_of_def page_window_empty_iff Question_query_all_def sample_rows_length)

section \<open>Questions by category\<close>

text \<open>The guard \<^verbatim>\<open>if not selection: abort(404)\<close> tests a query object, so the
  handler never answers not-found.\<close>

lemma get_question_by_category_id_never_not_found:
  "get_question_by_category_id st category_id \<noteq> Inl NotFound"
  by (simp add: get_question_by_category_id_def Let_def split: option.splits)

text \<open>
  C7. The claim is that an empty filtered result gives not-found. On the sample
  store category 2 exists and has no question; the handler answers 200 with
  an empty list and a count of 0.
\<close>

theorem get_question_by_category_id_empty:
  "filter_by_category sample_store 2 = []
   \<and> get_question_by_category_id sample_store 2 =
       Inr \<lparr>resp_status = 200,
            resp_json = [(''success'', JBool True),
                         (''count'', JInt 0),
                         (''questions'', JList []),
                         (''current_category'', JStr ''Art'')]\<rparr>"
  by (simp add: get_question_by_category_id_def Category_query_get_def filter_by_category_def
        sample_store_def sample_question_def)

section \<open>Deleting a question\<close>

lemma find_filter_neq: "find (\<lambda>r. f r = i) (filter (\<lambda>r. f r \<noteq> i) xs) = None"
  by (simp add: find_None_iff)

lemma filter_neq_remove1:
  "distinct (map f xs) \<Longrightarrow> find (\<lambda>r. f r = i) xs = Some q \<Longrightarrow>
     filter (\<lambda>r. f r \<noteq> i) xs = remove1 q xs"
proof (induction xs)
  case Nil
  then show ?case by simp
next
  case (Cons x xs)
  show ?case
  proof (cases "f x = i")
    case True
    with Cons.prems have "q = x" by simp
    moreover from True Cons.prems have "\<forall>r \<in> set xs. f r \<noteq> i" by (fastforce simp: image_iff)
    then have "filter (\<lambda>r. f r \<noteq> i) xs = xs" by simp
    ultimately show ?thesis using True by simp
  next
    case False
    with Cons.prems have "find (\<lambda>r. f r = i) xs = Some q" by simp
    moreover from this have "f q = i" by (auto simp: find_Some_iff)
    ultimately show ?thesis using False Cons by auto
  qed
qed

text \<open>
  C8. When the store has a question with the id, DELETE /questions/<id> leaves
  a store in which the lookup by that id finds nothing and the full listing is
  the old one without the rows of that id (exactly the one looked-up row
  removed, ids being unique); the categories are untouched. When the store has
  no question with the id, the outcome is not-found and the store is unchanged.
\<close>

theorem delete_question_removes:
  "(Question_query_get st i = Some q \<longrightarrow>
      (let st' = snd (delete_question st i)
       in Question_query_get st' i = None
        \<and> Question_query_all st' = filter (\<lambda>r. q_id r \<noteq> i) (Question_query_all st)
        \<and> (\<forall>r \<in> set (Question_query_all st'). q_id r \<noteq> i)
        \<and> (distinct (map q_id (Question_query_all st)) \<longrightarrow>
             Question_query_all st' = remove1 q (Question_query_all st))
        \<and> Category_query_all st' = Category_query_all st))
   \<and> (Question_query_get st i = None \<longrightarrow> delete_question st i = (Inl NotFound, st))"
proof (intro conjI impI)
  assume get: "Question_query_get st i = Some q"
  then have qi: "q_id q = i"
    by (auto simp: Question_query_get_def find_Some_iff)
  have st': "snd (delete_question st i) = Question_delete st q"
    using get by (simp add: delete_question_def Let_def)
  have rows: "question_rows (Question_delete st q) = filter (\<lambda>r. q_id r \<noteq> i) (question_rows st)"
    by (simp add: Question_delete_def qi)
  have one: "distinct (map q_id (question_rows st)) \<Longrightarrow>
      filter (\<lambda>r. q_id r \<noteq> i) (question_rows st) = remove1 q (question_rows st)"
    using get by (intro filter_neq_remove1) (simp_all add: Question_query_get_def)
  show "let st' = snd (delete_question st i)
       in Question_query_get st' i = None
        \<and> Question_query_all st' = filter (\<lambda>r. q_id r \<noteq> i) (Question_query_all st)
        \<and> (\<forall>r \<in> set (Question_query_all st'). q_id r \<noteq> i)
        \<and> (distinct (map q_id (Question_query_all st)) \<longrightarrow>
             Question_query_all st' = remove1 q (Question_query_all st))
        \<and> Category_query_all st' = Category_query_all st"
    unfolding Let_def st'
    using one
    by (simp add: Question_query_get_def Question_query_all_def Category_query_all_def rows
          find_filter_neq)
      (simp add: Question_delete_def)
next
  assume "Question_query_get st i = None"
  then show "delete_question st i = (Inl NotFound, st)"
    by (simp add: delete_question_def)
qed

section \<open>Creating and searching questions\<close>

text \<open>
  C3. A create request (no truthy \<open>category\<close> or \<open>search\<close> field, a
  \<open>question\<close> object with its four fields) whose question text is the text
  of a stored question fails with conflict, whatever the other three values
  are, and leaves the store as it was.
\<close>

theorem create_duplicate_conflict:
  assumes "\<not> truthy (dict_get b ''category'')" and "\<not> truthy (dict_get b ''search'')"
    and "dict_get b ''question'' = JObj new_question"
    and "map_of new_question ''question'' = Some (JStr text)"
    and "map_of new_question ''answer'' = Some answer_text"
    and "map_of new_question ''difficulty'' = Some difficulty"
    and "map_of new_question ''category'' = Some category"
    and "\<exists>q \<in> set (Question_query_all st). q_question q = text"
  shows "post_questions db st (JObj b) = (Inl Conflict, st)"
proof -
  from assms(4) have ne: "new_question \<noteq> []" by auto
  from assms(8) have dup: "filter_by_question st text \<noteq> []"
    by (auto simp: filter_by_question_def Question_query_all_def filter_empty_conv)
  have "create_question db st (JObj new_question) = (Inl Conflict, st)"
    using assms(4-7) dup by (simp add: create_question_def)
  then show ?thesis
    using assms(1-3) ne by (simp add: post_questions_def Let_def)
qed

text \<open>
  C6. A create request whose \<open>question\<close> object lacks one of \<open>question\<close>,
  \<open>answer\<close>, \<open>difficulty\<close> and \<open>category\<close> fails with unprocessable and
  leaves the store as it was.
\<close>

theorem create_missing_field:
  assumes "\<not> truthy (dict_get b ''category'')" and "\<not> truthy (dict_get b ''search'')"
    and "dict_get b ''question'' = JObj new_question"
    and "map_of new_question ''question'' = None \<or> map_of new_question ''answer'' = None
       \<or> map_of new_question ''difficulty'' = None \<or> map_of new_question ''category'' = None"
  shows "post_questions db st (JObj b) = (Inl Unprocessable, st)"
proof -
  have "create_question db st (JObj new_question) = (Inl Unprocessable, st)"
    using assms(4) by (auto simp: create_question_def split: option.splits)
  then show ?thesis
    using assms(1-3) by (simp add: post_questions_def Let_def)
qed

lemma map_of_drop_key:
  "map_of (filter (\<lambda>kv. fst kv \<noteq> k) d) k' = (if k' = k then None else map_of d k')"
  by (induction d) auto

lemma dict_get_drop_key:
  "dict_get (filter (\<lambda>kv. fst kv \<noteq> k) d) k' = (if k' = k then JNull else dict_get d k')"
  by (simp add: dict_get_def map_of_drop_key)

text \<open>
  C9, as amended. A body that holds only \<open>category: 0\<close>, or only
  \<open>search: ""\<close>, is unprocessable. A falsy \<open>category\<close> field is treated as
  an absent one: the outcome is that of the body without the field; and
  likewise for a falsy \<open>search\<close> field once the category branch is not taken.
  A truthy \<open>category\<close> value is handed to the category filter as the database
  binds it, and a value bound to 0 is never an integer: the number 0 does not
  reach the filter, while another value that the database takes for 0 does.
\<close>

theorem post_questions_falsy_fields:
  "post_questions db st (JObj [(''category'', JInt 0)]) = (Inl Unprocessable, st)
   \<and> post_questions db st (JObj [(''search'', JStr '''')]) = (Inl Unprocessable, st)
   \<and> (\<not> truthy (dict_get b ''category'') \<longrightarrow>
        post_questions db st (JObj b)
          = post_questions db st (JObj (filter (\<lambda>kv. fst kv \<noteq> ''category'') b)))
   \<and> (\<not> truthy (dict_get b ''category'') \<and> \<not> truthy (dict_get b ''search'') \<longrightarrow>
        post_questions db st (JObj b)
          = post_questions db st (JObj (filter (\<lambda>kv. fst kv \<noteq> ''search'') b)))
   \<and> (truthy (dict_get b ''category'') \<longrightarrow>
        post_questions db st (JObj b)
          = (post_questions_respond 200 0
               (Query (map_option (filter_by_category st) (bind_int db (dict_get b ''category'')))),
             st))
   \<and> (truthy (dict_get b ''category'') \<and> bind_int db (dict_get b ''category'') = Some 0 \<longrightarrow>
        (\<forall>n. dict_get b ''category'' \<noteq> JInt n))"
proof -
  have falsy: "post_questions db st (JObj [(''category'', JInt 0)]) = (Inl Unprocessable, st)
   \<and> post_questions db st (JObj [(''search'', JStr '''')]) = (Inl Unprocessable, st)
   \<and> (\<not> truthy (dict_get b ''category'') \<longrightarrow>
        post_questions db st (JObj b)
          = post_questions db st (JObj (filter (\<lambda>kv. fst kv \<noteq> ''category'') b)))
   \<and> (\<not> truthy (dict_get b ''category'') \<and> \<not> truthy (dict_get b ''search'') \<longrightarrow>
        post_questions db st (JObj b)
          = post_questions db st (JObj (filter (\<lambda>kv. fst kv \<noteq> ''search'') b)))"
    by (simp add: post_questions_def Let_def dict_get_drop_key) (simp add: dict_get_def)
  have branch: "post_questions db st (JObj b)
          = (post_questions_respond 200 0
               (Query (map_option (filter_by_category st) (bind_int db (dict_get b ''category'')))),
             st)" if "truthy (dict_get b ''category'')"
    using that by (simp add: post_questions_def Let_def)
  have key: "\<forall>n. dict_get b ''category'' \<noteq> JInt n"
    if "truthy (dict_get b ''category'') \<and> bind_int db (dict_get b ''category'') = Some 0"
  proof (intro allI notI)
    fix n assume "dict_get b ''category'' = JInt n"
    with that show False by simp
  qed
  show ?thesis
    using falsy branch key by blast
qed

text \<open>
  C9 as stated fails where it says that category id 0 can never be filtered
  through this route: the string \<open>"0"\<close> is truthy, and with a database that
  takes it for the integer 0 the body \<open>category: "0"\<close> is answered with the
  questions of category 0.
\<close>

theorem post_questions_category_0_counterexample:
  "post_questions coercing_db mixed_store (JObj [(''category'', JStr ''0'')])
     = (Inr \<lparr>resp_status = 200,
             resp_json = [(''success'', JBool True),
                (''questions'', JList [Question_format
                   \<lparr>q_id = 2, q_question = ''second'', q_answer = ''b'', q_category = 0,
                    q_difficulty = 1\<rparr>]),
                (''count'', JInt 1)]\<rparr>, mixed_store)
   \<and> filter_by_category mixed_store 0 =
       [\<lparr>q_id = 2, q_question = ''second'', q_answer = ''b'', q_category = 0, q_difficulty = 1\<rparr>]"
  by (simp add: post_questions_def dict_get_def post_questions_respond_def filter_by_category_def
        Let_def mixed_store_def coercing_db_def)

subsection \<open>Deleting from the sample store\<close>

lemma sample_get_3: "Question_query_get sample_store 3 = Some (sample_question 3 ''q3'')"
  by (simp add: Question_query_get_def sample_store_def sample_question_def)

lemma sample_get_99: "Question_query_get sample_store 99 = None"
  by (simp add: Question_query_get_def sample_store_def sample_question_def)

lemma sample_ids_distinct: "distinct (map q_id (Question_query_all sample_store))"
  by (simp add: Question_query_all_def sample_store_def sample_question_def)

lemma sample_remove_3:
  "remove1 (sample_question 3 ''q3'') (Question_query_all sample_store) =
     [sample_question 1 ''q1'', sample_question 2 ''q2'',
      sample_question 4 ''q4'', sample_question 5 ''q5'', sample_question 6 ''q6'',
      sample_question 7 ''q7'', sample_question 8 ''q8'', sample_question 9 ''q9'',
      sample_question 10 ''q10'', sample_question 11 ''q11'']"
  by (simp add: Question_query_all_def sample_store_def sample_question_def)

text \<open>Deleting question 3 of the sample store, and a question it does not hold.\<close>

theorem delete_question_removes_witness:
  "Question_query_get (snd (delete_question sample_store 3)) 3 = None
   \<and> Question_query_all (snd (delete_question sample_store 3)) =
       [sample_question 1 ''q1'', sample_question 2 ''q2'',
        sample_question 4 ''q4'', sample_question 5 ''q5'', sample_question 6 ''q6'',
        sample_question 7 ''q7'', sample_question 8 ''q8'', sample_question 9 ''q9'',
        sample_question 10 ''q10'', sample_question 11 ''q11'']
   \<and> delete_question sample_store 99 = (Inl NotFound, sample_store)"
proof -
  note a = delete_question_removes [of sample_store 3 "sample_question 3 ''q3''"]
  note b = delete_question_removes [of sample_store 99 "sample_question 3 ''q3''"]
  from a sample_get_3 sample_ids_distinct
  have "Question_query_get (snd (delete_question sample_store 3)) 3 = None"
    and "Question_query_all (snd (delete_question sample_store 3))
           = remove1 (sample_question 3 ''q3'') (Question_query_all sample_store)"
    unfolding Let_def by blast+
  moreover from b sample_get_99
  have "delete_question sample_store 99 = (Inl NotFound, sample_store)" by blast
  ultimately show ?thesis by (simp only: sample_remove_3 simp_thms)
qed

subsection \<open>Posting to the sample store\<close>

lemma sample_has_q3: "\<exists>q \<in> set (Question_query_all sample_store). q_question q = ''q3''"
  by (simp add: Question_query_all_def sample_store_def sample_question_def)

text \<open>A create request that repeats the text of question 3 with another answer,
  difficulty and category.\<close>

theorem create_duplicate_conflict_witness:
  "post_questions sample_db sample_store
     (JObj [(''question'', JObj [(''question'', JStr ''q3''), (''answer'', JStr ''no''),
                                 (''difficulty'', JInt 5), (''category'', JInt 2)])])
     = (Inl Conflict, sample_store)"
  using sample_has_q3
  by (intro create_duplicate_conflict
      [of "[(''question'', JObj [(''question'', JStr ''q3''), (''answer'', JStr ''no''),
                                 (''difficulty'', JInt 5), (''category'', JInt 2)])]"
          "[(''question'', JStr ''q3''), (''answer'', JStr ''no''),
            (''difficulty'', JInt 5), (''category'', JInt 2)]"
          "''q3''" "JStr ''no''" "JInt 5" "JInt 2" sample_store sample_db])
    (simp_all add: dict_get_def)

text \<open>A create request without an answer.\<close>

theorem create_missing_field_witness:
  "post_questions sample_db sample_store
     (JObj [(''question'', JObj [(''question'', JStr ''''), (''category'', JInt 1),
                                 (''difficulty'', JInt 1)])])
     = (Inl Unprocessable, sample_store)"
  by (intro create_missing_field
      [of "[(''question'', JObj [(''question'', JStr ''''), (''category'', JInt 1),
                                 (''difficulty'', JInt 1)])]"
          "[(''question'', JStr ''''), (''category'', JInt 1), (''difficulty'', JInt 1)]"
          sample_db sample_store])
    (simp_all add: dict_get_def)

text \<open>A create request with a new text is stored under the next id.\<close>

lemma sample_create:
  "post_questions sample_db sample_store
     (JObj [(''question'', JObj [(''question'', JStr ''new question''), (''answer'', JStr ''answer''),
                                 (''category'', JInt 1), (''difficulty'', JInt 1)])])
   = (Inr \<lparr>resp_status = 201,
           resp_json = [(''success'', JBool True),
              (''questions'', JList (map Question_format (question_rows sample_store @
                 [\<lparr>q_id = 12, q_question = ''new question'', q_answer = ''answer'',
                   q_category = 1, q_difficulty = 1\<rparr>]))),
              (''created'', JInt 12),
              (''count'', JInt 12)]\<rparr>,
      sample_store\<lparr>question_rows := question_rows sample_store @
                 [\<lparr>q_id = 12, q_question = ''new question'', q_answer = ''answer'',
                   q_category = 1, q_difficulty = 1\<rparr>],
                 next_question_id := 13\<rparr>)"
  by (simp add: post_questions_def create_question_def store_int_def fits_integer_column_def
        dict_get_def filter_by_question_def Question_insert_def post_questions_respond_def Question_query_all_def Let_def
        sample_store_def sample_question_def)

lemma sample_search:
  "post_questions sample_db sample_store (JObj [(''search'', JStr ''q3'')])
     = (Inr \<lparr>resp_status = 200,
             resp_json = [(''success'', JBool True),
                (''questions'', JList [Question_format (sample_question 3 ''q3'')]),
                (''count'', JInt 1)]\<rparr>, sample_store)"
  by (simp add: post_questions_def dict_get_def post_questions_respond_def search_questions_def
        Let_def sample_store_def sample_question_def sample_db_def sample_ilike_def
        lower_char_def)

text \<open>A search is a case-insensitive substring match.\<close>

lemma sample_search_q1:
  "post_questions sample_db sample_store (JObj [(''search'', JStr ''Q1'')])
     = (Inr \<lparr>resp_status = 200,
             resp_json = [(''success'', JBool True),
                (''questions'', JList [Question_format (sample_question 1 ''q1''),
                   Question_format (sample_question 10 ''q10''),
                   Question_format (sample_question 11 ''q11'')]),
                (''count'', JInt 3)]\<rparr>, sample_store)"
  by (simp add: post_questions_def dict_get_def post_questions_respond_def search_questions_def
        Let_def sample_store_def sample_question_def sample_db_def sample_ilike_def
        lower_char_def)

text \<open>With \<open>category: 0\<close> beside a search term the search branch answers;
  with a category that is not falsy the category filter does.\<close>

theorem post_questions_falsy_fields_witness:
  "post_questions sample_db sample_store (JObj [(''category'', JInt 0), (''search'', JStr ''q3'')])
     = (Inr \<lparr>resp_status = 200,
             resp_json = [(''success'', JBool True),
                (''questions'', JList [Question_format (sample_question 3 ''q3'')]),
                (''count'', JInt 1)]\<rparr>, sample_store)
   \<and> post_questions sample_db sample_store (JObj [(''category'', JInt 0)])
       = (Inl Unprocessable, sample_store)
   \<and> post_questions sample_db sample_store (JObj [(''search'', JStr '''')])
       = (Inl Unprocessable, sample_store)
   \<and> post_questions coercing_db mixed_store (JObj [(''category'', JInt 2)])
       = (post_questions_respond 200 0 (Query (Some (filter_by_category mixed_store 2))),
          mixed_store)"
proof -
  note t = post_questions_falsy_fields
      [of sample_db sample_store "[(''category'', JInt 0), (''search'', JStr ''q3'')]"]
  note u = post_questions_falsy_fields
      [of coercing_db mixed_store "[(''category'', JInt 2)]"]
  have f: "\<not> truthy (dict_get [(''category'', JInt 0), (''search'', JStr ''q3'')] ''category'')"
    by (simp add: dict_get_def)
  have d: "filter (\<lambda>kv. fst kv \<noteq> ''category'') [(''category'', JInt 0), (''search'', JStr ''q3'')]
      = [(''search'', JStr ''q3'')]"
    by simp
  from t f have "post_questions sample_db sample_store (JObj [(''category'', JInt 0), (''search'', JStr ''q3'')])
     = post_questions sample_db sample_store
         (JObj (filter (\<lambda>kv. fst kv \<noteq> ''category'') [(''category'', JInt 0), (''search'', JStr ''q3'')]))"
    by blast
  then have 1: "post_questions sample_db sample_store (JObj [(''category'', JInt 0), (''search'', JStr ''q3'')])
     = post_questions sample_db sample_store (JObj [(''search'', JStr ''q3'')])"
    by (simp only: d)
  have g: "dict_get [(''category'', JInt 2)] ''category'' = JInt 2"
    by (simp add: dict_get_def)
  from u have 2: "post_questions coercing_db mixed_store (JObj [(''category'', JInt 2)])
       = (post_questions_respond 200 0 (Query (Some (filter_by_category mixed_store 2))),
          mixed_store)"
    by (simp add: g)
  from 1 2 t sample_search show ?thesis by simp
qed

section \<open>Quiz questions\<close>

text \<open>With a list of previous questions the comprehension is a filter.\<close>

lemma not_previous_list:
  "not_previous window (JList previous)
     = Inr (map Question_format (filter (fresh previous) window))"
  by (induction window) (simp_all add: fresh_def)

lemma first_five_iterate:
  "iterate selection = Inr rows \<Longrightarrow> first_five selection = Inr (take 5 rows)"
  by (cases selection rule: first_five.cases) simp_all

lemma get_quizzes_list:
  assumes "dict_get b ''quiz'' = JObj quiz"
    and "map_of quiz ''category_id'' = Some category_id"
    and "map_of quiz ''previous_questions'' = Some (JList previous)"
    and "quiz_selection db st category_id = Inr (selection, category)"
    and "iterate selection = Inr rows"
  shows "get_quizzes db st r (JObj b) =
     Inr \<lparr>resp_status = 200,
          resp_json = [(''success'', JBool True),
             (''question'',
                (let questions = map Question_format (filter (fresh previous) (take 5 rows))
                 in if questions \<noteq> [] then questions ! randint_below r (length questions) else JNull)),
             (''previous_questions'', JList previous),
             (''current_category'', category)]\<rparr>"
proof -
  from assms(2) have "quiz \<noteq> []" by auto
  then show ?thesis
    using assms by (simp add: get_quizzes_def Let_def first_five_iterate not_previous_list)
qed

lemma randint_below_less: "0 < n \<Longrightarrow> randint_below r n < n"
  by (simp add: randint_below_def)

lemma randint_below_onto: "i < n \<Longrightarrow> randint_below i n = i"
  by (simp add: randint_below_def)

lemma fresh_not_in: "fresh previous q \<Longrightarrow> JInt (q_id q) \<notin> set previous"
  by (auto simp: fresh_def)

lemma not_previous_sound:
  "not_previous window previous = Inr questions \<Longrightarrow>
     set questions \<subseteq> Question_format ` set window"
proof (induction window arbitrary: questions)
  case Nil
  then show ?case by simp
next
  case (Cons q window)
  then show ?case
    by (auto split: option.splits sum.splits if_splits)
qed

text \<open>
  C1. Take a quiz request with a valid body: a \<open>quiz\<close> object with a
  \<open>category_id\<close> for which the selection succeeds, and a list of previous
  questions. The request succeeds with status 200 and \<open>success\<close> true. Its
  question, when not null, is the formatted form of one of the first five rows
  of the selection whose id is not in the previous questions; and it is null
  exactly when every one of those first five rows is excluded by the previous
  questions.
\<close>

theorem quiz_question_fresh:
  assumes "dict_get b ''quiz'' = JObj quiz"
    and "map_of quiz ''category_id'' = Some category_id"
    and "map_of quiz ''previous_questions'' = Some (JList previous)"
    and "quiz_selection db st category_id = Inr (selection, category)"
    and "iterate selection = Inr rows"
  shows "\<exists>resp question.
           get_quizzes db st r (JObj b) = Inr resp
         \<and> resp_status resp = 200
         \<and> map_of (resp_json resp) ''success'' = Some (JBool True)
         \<and> map_of (resp_json resp) ''question'' = Some question
         \<and> (question \<noteq> JNull \<longrightarrow>
              (\<exists>q \<in> set (take 5 rows). question = Question_format q
                  \<and> \<not> (\<exists>x \<in> set previous. int_eq (q_id q) x)
                  \<and> JInt (q_id q) \<notin> set previous))
         \<and> (question = JNull \<longleftrightarrow>
              (\<forall>q \<in> set (take 5 rows). \<exists>x \<in> set previous. int_eq (q_id q) x))"
proof -
  define questions where "questions = map Question_format (filter (fresh previous) (take 5 rows))"
  define question where
    "question = (if questions \<noteq> [] then questions ! randint_below r (length questions) else JNull)"
  have resp: "get_quizzes db st r (JObj b) =
     Inr \<lparr>resp_status = 200,
          resp_json = [(''success'', JBool True), (''question'', question),
             (''previous_questions'', JList previous), (''current_category'', category)]\<rparr>"
    using get_quizzes_list [OF assms] by (simp add: question_def questions_def Let_def)
  have mem: "question \<in> set questions" if "questions \<noteq> []"
    using that by (simp add: question_def randint_below_less)
  have pick: "\<exists>q \<in> set (take 5 rows). question = Question_format q
                  \<and> \<not> (\<exists>x \<in> set previous. int_eq (q_id q) x)
                  \<and> JInt (q_id q) \<notin> set previous" if "question \<noteq> JNull"
  proof -
    from that have "questions \<noteq> []" by (auto simp: question_def)
    from mem [OF this] obtain q where
      "q \<in> set (take 5 rows)" "fresh previous q" "question = Question_format q"
      by (auto simp: questions_def)
    then show ?thesis using fresh_not_in [of previous q] by (auto simp: fresh_def)
  qed
  have none: "question = JNull \<longleftrightarrow>
      (\<forall>q \<in> set (take 5 rows). \<exists>x \<in> set previous. int_eq (q_id q) x)"
  proof
    assume n: "question = JNull"
    have "questions = []"
    proof (rule ccontr)
      assume "questions \<noteq> []"
      from mem [OF this] n show False by (auto simp: questions_def Question_format_def)
    qed
    then show "\<forall>q \<in> set (take 5 rows). \<exists>x \<in> set previous. int_eq (q_id q) x"
      by (auto simp: questions_def filter_empty_conv fresh_def)
  next
    assume "\<forall>q \<in> set (take 5 rows). \<exists>x \<in> set previous. int_eq (q_id q) x"
    then have "filter (fresh previous) (take 5 rows) = []"
      by (auto simp: filter_empty_conv fresh_def)
    then show "question = JNull" by (simp add: question_def questions_def)
  qed
  show ?thesis
    using resp pick none by simp
qed

text \<open>
  C10. A quiz request whose \<open>category_id\<close> is truthy, is not the string
  \<open>"0"\<close> and matches no category (the database rejects the value, or no
  category has the id it stands for) fails with the internal error, status
  500, and not with not-found.
\<close>

theorem quiz_missing_category:
  assumes "dict_get b ''quiz'' = JObj quiz"
    and "map_of quiz ''category_id'' = Some category_id"
    and "truthy category_id" and "category_id \<noteq> JStr ''0''"
    and "\<forall>k. bind_int db category_id = Some k \<longrightarrow> Category_query_get st k = None"
  shows "get_quizzes db st r (JObj b) = Inl InternalError
       \<and> resp_status (http (get_quizzes db st r (JObj b))) = 500"
proof -
  from assms(2) have ne: "quiz \<noteq> []" by auto
  have "quiz_selection db st category_id = Inl InternalError"
    using assms(3-5) by (auto simp: quiz_selection_def split: option.splits)
  then have "get_quizzes db st r (JObj b) = Inl InternalError"
    using assms(1,2) ne by (simp add: get_quizzes_def Let_def)
  then show ?thesis by (simp add: http_def errorhandler_def)
qed

lemma get_quizzes_all:
  assumes "dict_get b ''quiz'' = JObj quiz"
    and "map_of quiz ''category_id'' = Some category_id"
    and "category_id = JInt 0 \<or> category_id = JStr ''0''"
  shows "get_quizzes db st r (JObj b) =
     (case map_of quiz ''previous_questions'' of
        None \<Rightarrow> Inl InternalError
      | Some previous_questions \<Rightarrow>
          (case not_previous (take 5 (Question_query_all st)) previous_questions of
             Inl e \<Rightarrow> Inl e
           | Inr questions \<Rightarrow>
               Inr \<lparr>resp_status = 200,
                    resp_json = [(''success'', JBool True),
                       (''question'',
                          if questions \<noteq> []
                          then questions ! randint_below r (length questions) else JNull),
                       (''previous_questions'', previous_questions),
                       (''current_category'', JStr '''')]\<rparr>))"
proof -
  from assms(2) have ne: "quiz \<noteq> []" by auto
  have sel: "quiz_selection db st category_id = Inr (Rows (Question_query_all st), JStr '''')"
    using assms(3) by (auto simp: quiz_selection_def)
  show ?thesis
    using assms(1,2) ne sel
    by (simp add: get_quizzes_def Let_def split: option.splits sum.splits)
qed

text \<open>
  C5. A quiz request whose \<open>quiz\<close> object has no \<open>category_id\<close> key is
  unprocessable. For a \<open>category_id\<close> of 0 or of the string \<open>"0"\<close> the
  selection is the full question collection and the category is the empty
  string: the outcome of such a request is the one computed from the first
  five of all questions, with the empty string as the current category. With
  a list of previous questions the request succeeds, its question is drawn
  from the first five of all questions that are not in the list, and each of
  these is the question of the response for some draw.
\<close>

theorem quiz_all_categories:
  "(dict_get b ''quiz'' = JObj quiz \<and> map_of quiz ''category_id'' = None \<longrightarrow>
      get_quizzes db st r (JObj b) = Inl Unprocessable)
   \<and> (category_id = JInt 0 \<or> category_id = JStr ''0'' \<longrightarrow>
        quiz_selection db st category_id = Inr (Rows (Question_query_all st), JStr ''''))
   \<and> (dict_get b ''quiz'' = JObj quiz \<and> map_of quiz ''category_id'' = Some category_id
        \<and> (category_id = JInt 0 \<or> category_id = JStr ''0'')
        \<and> get_quizzes db st r (JObj b) = Inr resp \<longrightarrow>
          map_of (resp_json resp) ''current_category'' = Some (JStr '''')
        \<and> (\<exists>question. map_of (resp_json resp) ''question'' = Some question
              \<and> (question = JNull \<or> question \<in> Question_format ` set (take 5 (Question_query_all st)))))
   \<and> (dict_get b ''quiz'' = JObj quiz \<and> map_of quiz ''category_id'' = Some category_id
        \<and> (category_id = JInt 0 \<or> category_id = JStr ''0'') \<longrightarrow>
          get_quizzes db st r (JObj b) =
            (case map_of quiz ''previous_questions'' of
               None \<Rightarrow> Inl InternalError
             | Some previous_questions \<Rightarrow>
                 (case not_previous (take 5 (Question_query_all st)) previous_questions of
                    Inl e \<Rightarrow> Inl e
                  | Inr questions \<Rightarrow>
                      Inr \<lparr>resp_status = 200,
                           resp_json = [(''success'', JBool True),
                              (''question'',
                                 if questions \<noteq> []
                                 then questions ! randint_below r (length questions) else JNull),
                              (''previous_questions'', previous_questions),
                              (''current_category'', JStr '''')]\<rparr>)))
   \<and> (dict_get b ''quiz'' = JObj quiz \<and> map_of quiz ''category_id'' = Some category_id
        \<and> (category_id = JInt 0 \<or> category_id = JStr ''0'')
        \<and> map_of quiz ''previous_questions'' = Some (JList previous) \<longrightarrow>
          get_quizzes db st r (JObj b) =
            Inr \<lparr>resp_status = 200,
                 resp_json = [(''success'', JBool True),
                    (''question'',
                       (let questions = map Question_format
                              (filter (fresh previous) (take 5 (Question_query_all st)))
                        in if questions \<noteq> []
                           then questions ! randint_below r (length questions) else JNull)),
                    (''previous_questions'', JList previous),
                    (''current_category'', JStr '''')]\<rparr>
        \<and> (\<forall>q \<in> set (filter (fresh previous) (take 5 (Question_query_all st))).
              \<exists>r' resp'. get_quizzes db st r' (JObj b) = Inr resp'
                 \<and> map_of (resp_json resp') ''question'' = Some (Question_format q)))"
proof -
  have absent: "get_quizzes db st r (JObj b) = Inl Unprocessable"
    if "dict_get b ''quiz'' = JObj quiz \<and> map_of quiz ''category_id'' = None"
    using that by (simp add: get_quizzes_def Let_def)
  have sel: "quiz_selection db st category_id = Inr (Rows (Question_query_all st), JStr '''')"
    if "category_id = JInt 0 \<or> category_id = JStr ''0''"
    using that by (auto simp: quiz_selection_def)
  have succeeded: "map_of (resp_json resp) ''current_category'' = Some (JStr '''')
        \<and> (\<exists>question. map_of (resp_json resp) ''question'' = Some question
              \<and> (question = JNull \<or> question \<in> Question_format ` set (take 5 (Question_query_all st))))"
    if h: "dict_get b ''quiz'' = JObj quiz \<and> map_of quiz ''category_id'' = Some category_id
        \<and> (category_id = JInt 0 \<or> category_id = JStr ''0'')
        \<and> get_quizzes db st r (JObj b) = Inr resp"
  proof -
    from h have zero: "category_id = JInt 0 \<or> category_id = JStr ''0''" by simp
    from h have ne: "quiz \<noteq> []" by auto
    from h obtain previous_questions questions where
      np: "not_previous (take 5 (Question_query_all st)) previous_questions = Inr questions"
      and resp: "resp = \<lparr>resp_status = 200,
            resp_json = [(''success'', JBool True),
               (''question'', if questions \<noteq> [] then questions ! randint_below r (length questions) else JNull),
               (''previous_questions'', previous_questions),
               (''current_category'', JStr '''')]\<rparr>"
      using sel [OF zero] ne by (auto simp: get_quizzes_def Let_def split: option.splits sum.splits)
    have "questions \<noteq> [] \<Longrightarrow> questions ! randint_below r (length questions) \<in> set questions"
      by (simp add: randint_below_less)
    with not_previous_sound [OF np] resp show ?thesis by auto
  qed
  have exact: "get_quizzes db st r (JObj b) =
            (case map_of quiz ''previous_questions'' of
               None \<Rightarrow> Inl InternalError
             | Some previous_questions \<Rightarrow>
                 (case not_previous (take 5 (Question_query_all st)) previous_questions of
                    Inl e \<Rightarrow> Inl e
                  | Inr questions \<Rightarrow>
                      Inr \<lparr>resp_status = 200,
                           resp_json = [(''success'', JBool True),
                              (''question'',
                                 if questions \<noteq> []
                                 then questions ! randint_below r (length questions) else JNull),
                              (''previous_questions'', previous_questions),
                              (''current_category'', JStr '''')]\<rparr>))"
    if "dict_get b ''quiz'' = JObj quiz \<and> map_of quiz ''category_id'' = Some category_id
        \<and> (category_id = JInt 0 \<or> category_id = JStr ''0'')" for r
    using that get_quizzes_all [of b quiz category_id db st r] by blast
  have listed: "get_quizzes db st r (JObj b) =
            Inr \<lparr>resp_status = 200,
                 resp_json = [(''success'', JBool True),
                    (''question'',
                       (let questions = map Question_format
                              (filter (fresh previous) (take 5 (Question_query_all st)))
                        in if questions \<noteq> []
                           then questions ! randint_below r (length questions) else JNull)),
                    (''previous_questions'', JList previous),
                    (''current_category'', JStr '''')]\<rparr>"
    if "dict_get b ''quiz'' = JObj quiz \<and> map_of quiz ''category_id'' = Some category_id
        \<and> (category_id = JInt 0 \<or> category_id = JStr ''0'')
        \<and> map_of quiz ''previous_questions'' = Some (JList previous)" for r
    using that exact [of r] by (simp add: not_previous_list Let_def)
  have reach: "\<exists>r' resp'. get_quizzes db st r' (JObj b) = Inr resp'
                 \<and> map_of (resp_json resp') ''question'' = Some (Question_format q)"
    if h: "dict_get b ''quiz'' = JObj quiz \<and> map_of quiz ''category_id'' = Some category_id
        \<and> (category_id = JInt 0 \<or> category_id = JStr ''0'')
        \<and> map_of quiz ''previous_questions'' = Some (JList previous)"
      and q: "q \<in> set (filter (fresh previous) (take 5 (Question_query_all st)))" for q
  proof -
    define qs where "qs = filter (fresh previous) (take 5 (Question_query_all st))"
    from q obtain i where i: "i < length qs" "qs ! i = q"
      unfolding qs_def by (meson in_set_conv_nth)
    then have "map Question_format qs \<noteq> []"
      and "map Question_format qs ! randint_below i (length (map Question_format qs)) = Question_format q"
      by (auto simp: randint_below_onto)
    with listed [OF h, of i]
    have "get_quizzes db st i (JObj b) =
            Inr \<lparr>resp_status = 200,
                 resp_json = [(''success'', JBool True),
                    (''question'', Question_format q),
                    (''previous_questions'', JList previous),
                    (''current_category'', JStr '''')]\<rparr>"
      by (simp add: qs_def Let_def)
    then have "get_quizzes db st i (JObj b) =
            Inr \<lparr>resp_status = 200,
                 resp_json = [(''success'', JBool True),
                    (''question'', Question_format q),
                    (''previous_questions'', JList previous),
                    (''current_category'', JStr '''')]\<rparr>
        \<and> map_of (resp_json \<lparr>resp_status = 200,
                 resp_json = [(''success'', JBool True),
                    (''question'', Question_format q),
                    (''previous_questions'', JList previous),
                    (''current_category'', JStr '''')]\<rparr>) ''question'' = Some (Question_format q)"
      by simp
    then show ?thesis by blast
  qed
  show ?thesis
    using absent sel succeeded exact [of r] listed [of r] reach by blast
qed

subsection \<open>Quizzes on the sample store\<close>

lemma sample_category_1:
  "quiz_selection sample_db sample_store (JInt 1)
     = Inr (Query (Some (filter_by_category sample_store 1)),
            Category_format \<lparr>c_id = 1, c_type = ''Science''\<rparr>)"
  by (simp add: quiz_selection_def Category_query_get_def sample_store_def)

lemma sample_window:
  "take 5 (filter_by_category sample_store 1) =
     [sample_question 1 ''q1'', sample_question 2 ''q2'', sample_question 3 ''q3'',
      sample_question 4 ''q4'', sample_question 5 ''q5'']"
  by (simp add: filter_by_category_def sample_store_def sample_question_def)

lemma sample_window_ids:
  "\<forall>q \<in> set (take 5 (filter_by_category sample_store 1)).
     \<exists>x \<in> set [JInt 1, JInt 2, JInt 3, JInt 4, JInt 5]. int_eq (q_id q) x"
  by (simp add: sample_window) (simp add: sample_question_def)

text \<open>A quiz on category 1 after questions 1 to 5: the window is exhausted, the
  question is null and the request succeeds.\<close>

theorem quiz_question_fresh_witness:
  "resp_status (http (get_quizzes sample_db sample_store 0
       (JObj [(''quiz'', JObj [(''category_id'', JInt 1),
          (''previous_questions'', JList [JInt 1, JInt 2, JInt 3, JInt 4, JInt 5])])]))) = 200
   \<and> map_of (resp_json (http (get_quizzes sample_db sample_store 0
       (JObj [(''quiz'', JObj [(''category_id'', JInt 1),
          (''previous_questions'', JList [JInt 1, JInt 2, JInt 3, JInt 4, JInt 5])])]))))
        ''question'' = Some JNull"
proof -
  have "\<exists>resp question.
           get_quizzes sample_db sample_store 0
             (JObj [(''quiz'', JObj [(''category_id'', JInt 1),
                (''previous_questions'', JList [JInt 1, JInt 2, JInt 3, JInt 4, JInt 5])])]) = Inr resp
         \<and> resp_status resp = 200
         \<and> map_of (resp_json resp) ''success'' = Some (JBool True)
         \<and> map_of (resp_json resp) ''question'' = Some question
         \<and> (question \<noteq> JNull \<longrightarrow>
              (\<exists>q \<in> set (take 5 (filter_by_category sample_store 1)). question = Question_format q
                  \<and> \<not> (\<exists>x \<in> set [JInt 1, JInt 2, JInt 3, JInt 4, JInt 5]. int_eq (q_id q) x)
                  \<and> JInt (q_id q) \<notin> set [JInt 1, JInt 2, JInt 3, JInt 4, JInt 5]))
         \<and> (question = JNull \<longleftrightarrow>
              (\<forall>q \<in> set (take 5 (filter_by_category sample_store 1)).
                 \<exists>x \<in> set [JInt 1, JInt 2, JInt 3, JInt 4, JInt 5]. int_eq (q_id q) x))"
    by (rule quiz_question_fresh
        [where quiz = "[(''category_id'', JInt 1),
            (''previous_questions'', JList [JInt 1, JInt 2, JInt 3, JInt 4, JInt 5])]"
          and category_id = "JInt 1"
          and selection = "Query (Some (filter_by_category sample_store 1))"
          and category = "Category_format \<lparr>c_id = 1, c_type = ''Science''\<rparr>"])
      (simp_all add: dict_get_def sample_category_1)
  then obtain resp question where
    "get_quizzes sample_db sample_store 0
       (JObj [(''quiz'', JObj [(''category_id'', JInt 1),
          (''previous_questions'', JList [JInt 1, JInt 2, JInt 3, JInt 4, JInt 5])])]) = Inr resp"
    "resp_status resp = 200"
    "map_of (resp_json resp) ''question'' = Some question"
    "question = JNull \<longleftrightarrow>
       (\<forall>q \<in> set (take 5 (filter_by_category sample_store 1)).
          \<exists>x \<in> set [JInt 1, JInt 2, JInt 3, JInt 4, JInt 5]. int_eq (q_id q) x)"
    by blast
  with sample_window_ids show ?thesis by (simp add: http_def)
qed

lemma sample_no_category_7: "Category_query_get sample_store 7 = None"
  by (simp add: Category_query_get_def sample_store_def)

text \<open>A quiz on category 7, which the sample store does not have.\<close>

theorem quiz_missing_category_witness:
  "get_quizzes sample_db sample_store 0
     (JObj [(''quiz'', JObj [(''category_id'', JInt 7), (''previous_questions'', JList [])])])
     = Inl InternalError
   \<and> resp_status (http (get_quizzes sample_db sample_store 0
        (JObj [(''quiz'', JObj [(''category_id'', JInt 7), (''previous_questions'', JList [])])])))
     = 500"
  by (rule quiz_missing_category
      [where quiz = "[(''category_id'', JInt 7), (''previous_questions'', JList [])]"
        and category_id = "JInt 7"])
    (simp_all add: dict_get_def sample_no_category_7)

lemma sample_quiz_all:
  "get_quizzes sample_db sample_store 0
     (JObj [(''quiz'', JObj [(''previous_questions'', JList []), (''category_id'', JInt 0)])])
   = Inr \<lparr>resp_status = 200,
          resp_json = [(''success'', JBool True),
             (''question'', Question_format (sample_question 1 ''q1'')),
             (''previous_questions'', JList []),
             (''current_category'', JStr '''')]\<rparr>"
  by (simp add: get_quizzes_def quiz_selection_def dict_get_def Question_query_all_def Let_def
        randint_below_def sample_store_def)

text \<open>The first five of all questions of the second store that are not question
  1.\<close>

lemma mixed_quiz_window:
  "filter (fresh [JInt 1]) (take 5 (Question_query_all mixed_store)) =
     [\<lparr>q_id = 2, q_question = ''second'', q_answer = ''b'', q_category = 0, q_difficulty = 1\<rparr>,
      \<lparr>q_id = 3, q_question = ''third'', q_answer = ''c'', q_category = 2, q_difficulty = 1\<rparr>]"
  by (simp add: fresh_def Question_query_all_def mixed_store_def)

text \<open>The quiz requests of the test suite, without a category id and with the
  category id 0; and on the second store a quiz with the category id \<open>"0"\<close>
  after question 1, which draws a question of category 0 or one of category 2.\<close>

theorem quiz_all_categories_witness:
  "get_quizzes sample_db sample_store 0 (JObj [(''quiz'', JObj [(''previous_questions'', JList [])])])
     = Inl Unprocessable
   \<and> quiz_selection sample_db sample_store (JStr ''0'')
       = Inr (Rows (Question_query_all sample_store), JStr '''')
   \<and> map_of (resp_json (http (get_quizzes sample_db sample_store 0
         (JObj [(''quiz'', JObj [(''previous_questions'', JList []), (''category_id'', JInt 0)])]))))
        ''current_category'' = Some (JStr '''')
   \<and> get_quizzes sample_db mixed_store 0
         (JObj [(''quiz'', JObj [(''category_id'', JStr ''0''),
                                 (''previous_questions'', JList [JInt 1])])])
       = Inr \<lparr>resp_status = 200,
              resp_json = [(''success'', JBool True),
                 (''question'', Question_format
                    \<lparr>q_id = 2, q_question = ''second'', q_answer = ''b'', q_category = 0,
                     q_difficulty = 1\<rparr>),
                 (''previous_questions'', JList [JInt 1]),
                 (''current_category'', JStr '''')]\<rparr>
   \<and> get_quizzes sample_db mixed_store 1
         (JObj [(''quiz'', JObj [(''category_id'', JStr ''0''),
                                 (''previous_questions'', JList [JInt 1])])])
       = Inr \<lparr>resp_status = 200,
              resp_json = [(''success'', JBool True),
                 (''question'', Question_format
                    \<lparr>q_id = 3, q_question = ''third'', q_answer = ''c'', q_category = 2,
                     q_difficulty = 1\<rparr>),
                 (''previous_questions'', JList [JInt 1]),
                 (''current_category'', JStr '''')]\<rparr>"
proof -
  note a = quiz_all_categories
    [of "[(''quiz'', JObj [(''previous_questions'', JList [])])]"
        "[(''previous_questions'', JList [])]" sample_db sample_store 0 "JStr ''0''"]
  note b = quiz_all_categories
    [of "[(''quiz'', JObj [(''previous_questions'', JList []), (''category_id'', JInt 0)])]"
        "[(''previous_questions'', JList []), (''category_id'', JInt 0)]"
        sample_db sample_store 0 "JInt 0"
        "\<lparr>resp_status = 200,
          resp_json = [(''success'', JBool True),
             (''question'', Question_format (sample_question 1 ''q1'')),
             (''previous_questions'', JList []),
             (''current_category'', JStr '''')]\<rparr>"]
  note c = quiz_all_categories
    [where b = "[(''quiz'', JObj [(''category_id'', JStr ''0''),
                                  (''previous_questions'', JList [JInt 1])])]"
       and quiz = "[(''category_id'', JStr ''0''), (''previous_questions'', JList [JInt 1])]"
       and db = sample_db and st = mixed_store and category_id = "JStr ''0''"
       and previous = "[JInt 1]" and resp = "errorhandler NotFound"]
  have 1: "get_quizzes sample_db sample_store 0 (JObj [(''quiz'', JObj [(''previous_questions'', JList [])])])
     = Inl Unprocessable"
    using a by (simp add: dict_get_def)
  have 2: "quiz_selection sample_db sample_store (JStr ''0'')
       = Inr (Rows (Question_query_all sample_store), JStr '''')"
    using a by simp
  have 3: "map_of (resp_json \<lparr>resp_status = 200,
          resp_json = [(''success'', JBool True),
             (''question'', Question_format (sample_question 1 ''q1'')),
             (''previous_questions'', JList []),
             (''current_category'', JStr '''')]\<rparr>) ''current_category'' = Some (JStr '''')"
    using b sample_quiz_all by (simp add: dict_get_def)
  have h: "dict_get [(''quiz'', JObj [(''category_id'', JStr ''0''),
                                  (''previous_questions'', JList [JInt 1])])] ''quiz''
             = JObj [(''category_id'', JStr ''0''), (''previous_questions'', JList [JInt 1])]"
    by (simp add: dict_get_def)
  have 4: "get_quizzes sample_db mixed_store 0
         (JObj [(''quiz'', JObj [(''category_id'', JStr ''0''),
                                 (''previous_questions'', JList [JInt 1])])])
       = Inr \<lparr>resp_status = 200,
              resp_json = [(''success'', JBool True),
                 (''question'', Question_format
                    \<lparr>q_id = 2, q_question = ''second'', q_answer = ''b'', q_category = 0,
                     q_difficulty = 1\<rparr>),
                 (''previous_questions'', JList [JInt 1]),
                 (''current_category'', JStr '''')]\<rparr>"
    using c [of 0] h by (simp add: not_previous_list mixed_quiz_window Let_def randint_below_def)
  have 5: "get_quizzes sample_db mixed_store 1
         (JObj [(''quiz'', JObj [(''category_id'', JStr ''0''),
                                 (''previous_questions'', JList [JInt 1])])])
       = Inr \<lparr>resp_status = 200,
              resp_json = [(''success'', JBool True),
                 (''question'', Question_format
                    \<lparr>q_id = 3, q_question = ''third'', q_answer = ''c'', q_category = 2,
                     q_difficulty = 1\<rparr>),
                 (''previous_questions'', JList [JInt 1]),
                 (''current_category'', JStr '''')]\<rparr>"
    using c [of 1] h by (simp add: not_previous_list mixed_quiz_window Let_def randint_below_def)
  show ?thesis
    using 1 2 3 4 5 by (simp add: sample_quiz_all http_def)
qed

end
